theory Spec2Isabelle
  imports Main "HOL-Library.AList"
begin

section \<open>Data model\<close>

text \<open>
  The feed object of the parsing library. The handlers read none of its fields and write
  one, \<open>FeedLink\<close>; the other fields travel unchanged from the parser to the encoder.
\<close>

record Item =
  ItemTitle :: string
  ItemLink :: string
  Published :: string

record Feed =
  Title :: string
  Description :: string
  Link :: string
  FeedLink :: string
  Items :: "Item list"

text \<open>
  \<^verbatim>\<open>type Subscription struct { Feeds []*gofeed.Feed }\<close>
  A Go slice is either nil or a sequence; \<open>None\<close> is the nil slice, which the zero
  value \<^verbatim>\<open>Subscription{}\<close> holds.
\<close>

record Subscription =
  Feeds :: "Feed list option"

definition append_slice :: "'a list option \<Rightarrow> 'a \<Rightarrow> 'a list option" where
  "append_slice sl x = (case sl of None \<Rightarrow> Some [x] | Some xs \<Rightarrow> Some (xs @ [x]))"

definition range_slice :: "'a list option \<Rightarrow> 'a list" where
  "range_slice sl = (case sl of None \<Rightarrow> [] | Some xs \<Rightarrow> xs)"

subsection \<open>The column store\<close>

text \<open>
  The table \<^verbatim>\<open>"Subscriptions"\<close> lives in the column store, which is not part of the
  repository; the handlers reach it through three statements. A row is addressed by its
  partition key (\<open>key\<close>, the user) and its column key (\<open>column1\<close>, the feed URL)
  and holds a marker value.
\<close>

type_synonym table = "((string \<times> string) \<times> string) list"

text \<open>
  Modelled from the spec: the effect of the \<^verbatim>\<open>INSERT\<close> statement on the table, which
  the column store (not in the repository) carries out. The insert is an upsert: it
  overwrites the row of the same (user, URL) pair, or adds the row.
\<close>

definition store_insert :: "string \<Rightarrow> string \<Rightarrow> string \<Rightarrow> table \<Rightarrow> table" where
  "store_insert key column1 val t = AList.update (key, column1) val t"

text \<open>
  Modelled from the spec: the effect of the \<^verbatim>\<open>DELETE\<close> statement on the table, which
  the column store (not in the repository) carries out. The delete removes the row of
  the pair and does not check that it exists.
\<close>

definition store_delete :: "string \<Rightarrow> string \<Rightarrow> table \<Rightarrow> table" where
  "store_delete key column1 t = AList.delete (key, column1) t"

text \<open>
  Modelled from the spec: the rows the \<^verbatim>\<open>SELECT column1 ... WHERE key = ?\<close> statement
  enumerates in the column store (not in the repository): the column keys of the
  partition of one user.
\<close>

definition store_select :: "string \<Rightarrow> table \<Rightarrow> string list" where
  "store_select key t = map (\<lambda>r. snd (fst r)) (filter (\<lambda>r. fst (fst r) = key) t)"

subsection \<open>The world outside the handlers\<close>

text \<open>
  What a request does to its collaborators is recorded as a trace of events, next to the
  contents of the table.
\<close>

datatype event =
    SessionCreated
  | SessionRefused
  | SessionClosed
  | Selected string
  | Inserted string string
  | Deleted string string
  | Fetched string
  | Fatal string

record world =
  Subscriptions :: table
  trace :: "event list"

definition emit :: "event \<Rightarrow> world \<Rightarrow> world" where
  "emit e s = s\<lparr>trace := trace s @ [e]\<rparr>"

text \<open>
  What the collaborators answer during one request: the error (if any) of the tracer's
  \<^verbatim>\<open>Extract\<close>, of \<^verbatim>\<open>CreateSession\<close>, of \<^verbatim>\<open>Exec\<close>, the point and error at
  which the row iterator breaks (if it does), the answer of the feed parser's
  \<^verbatim>\<open>ParseURL\<close> for each URL (an error text, or the parsed feed), and the JSON text
  the encoder produces for one feed.
\<close>

record env =
  extract_err :: "string option"
  connect_err :: "string option"
  exec_err :: "string option"
  iter_err :: "(nat \<times> string) option"
  parse :: "string \<Rightarrow> string + Feed"
  marshal :: "Feed \<Rightarrow> string"

text \<open>
  A call returns, or the process exits (\<^verbatim>\<open>log.Fatal\<close> prints and calls
  \<^verbatim>\<open>os.Exit(1)\<close>; deferred calls do not run), or the goroutine panics.
\<close>

datatype 'a result = Return 'a world | Exit world | Panic world

subsection \<open>The response writer\<close>

text \<open>
  \<^verbatim>\<open>http.ResponseWriter\<close>: the status code is fixed by the first \<^verbatim>\<open>WriteHeader\<close>;
  a \<^verbatim>\<open>Write\<close> before any \<^verbatim>\<open>WriteHeader\<close> sends 200 first.
\<close>

record ResponseWriter =
  code :: "nat option"
  body :: string

definition new_writer :: ResponseWriter where
  "new_writer = \<lparr>code = None, body = []\<rparr>"

definition WriteHeader :: "nat \<Rightarrow> ResponseWriter \<Rightarrow> ResponseWriter" where
  "WriteHeader c w = (if code w = None then w\<lparr>code := Some c\<rparr> else w)"

definition Write :: "string \<Rightarrow> ResponseWriter \<Rightarrow> ResponseWriter" where
  "Write bytes w = (let w' = WriteHeader 200 w in w'\<lparr>body := body w' @ bytes\<rparr>)"

text \<open>
  What the client receives: status and body when the handler returns (status 200 when the
  handler never set one), nothing when the process exited, and nothing when the handler
  panicked before it wrote (the server of middletier.go drops the connection; the
  handlers of the other variant never panic, see \<open>FetchFeed_loop_eq\<close> below).
\<close>

definition response :: "ResponseWriter result \<Rightarrow> (nat \<times> string) option" where
  "response r = (case r of
      Return w s \<Rightarrow> Some (case code w of None \<Rightarrow> 200 | Some c \<Rightarrow> c, body w)
    | Exit s \<Rightarrow> None
    | Panic s \<Rightarrow> None)"

definition world_of :: "'a result \<Rightarrow> world" where
  "world_of r = (case r of Return x s \<Rightarrow> s | Exit s \<Rightarrow> s | Panic s \<Rightarrow> s)"

subsection \<open>JSON encoding of the payload\<close>

fun join_comma :: "string list \<Rightarrow> string" where
  "join_comma [] = []"
| "join_comma [x] = x"
| "join_comma (x # y # ys) = x @ '','' @ join_comma (y # ys)"

definition quote :: string where
  "quote = [CHR 0x22]"

text \<open>
  \<^verbatim>\<open>json.NewEncoder(w).Encode(subscription)\<close>: one object with the key \<open>Feeds\<close>, the
  nil slice as \<open>null\<close>, any other slice as an array, and a newline after the value.
\<close>

definition Encode :: "env \<Rightarrow> Subscription \<Rightarrow> string" where
  "Encode e sub =
     ''{'' @ quote @ ''Feeds'' @ quote @ '':'' @
     (case Feeds sub of
        None \<Rightarrow> ''null''
      | Some fs \<Rightarrow> ''['' @ join_comma (map (marshal e) fs) @ '']'') @
     ''}'' @ [CHR 0x0A]"

section \<open>The handlers of middletier.go\<close>

definition ReturnErrorPage :: "ResponseWriter \<Rightarrow> string \<Rightarrow> ResponseWriter" where
  "ReturnErrorPage w err = Write err (WriteHeader 500 w)"

definition GetCassandraSession :: "env \<Rightarrow> world \<Rightarrow> string option \<times> world" where
  "GetCassandraSession e s =
     (case connect_err e of
        None \<Rightarrow> (None, emit SessionCreated s)
      | Some err \<Rightarrow> (Some err, emit SessionRefused s))"

definition session_Close :: "world \<Rightarrow> world" where
  "session_Close s = emit SessionClosed s"

text \<open>
  Modelled from the spec: \<^verbatim>\<open>session.Query(`INSERT ...`, key, column1, value).Exec()\<close>
  as the column store (not in the repository) answers it. The statement fails when the
  store reports a failure and is applied otherwise, whether or not the row exists.
\<close>

definition Exec_insert :: "env \<Rightarrow> string \<Rightarrow> string \<Rightarrow> string \<Rightarrow> world \<Rightarrow> string option \<times> world" where
  "Exec_insert e key column1 val s =
     (case exec_err e of
        Some err \<Rightarrow> (Some err, s)
      | None \<Rightarrow>
          (None, emit (Inserted key column1)
             (s\<lparr>Subscriptions := store_insert key column1 val (Subscriptions s)\<rparr>)))"

text \<open>
  Modelled from the spec: \<^verbatim>\<open>session.Query(`DELETE ...`, key, column1).Exec()\<close> as the
  column store (not in the repository) answers it. The statement fails when the store
  reports a failure and is applied otherwise, whether or not the row exists.
\<close>

definition Exec_delete :: "env \<Rightarrow> string \<Rightarrow> string \<Rightarrow> world \<Rightarrow> string option \<times> world" where
  "Exec_delete e key column1 s =
     (case exec_err e of
        Some err \<Rightarrow> (Some err, s)
      | None \<Rightarrow>
          (None, emit (Deleted key column1)
             (s\<lparr>Subscriptions := store_delete key column1 (Subscriptions s)\<rparr>)))"

text \<open>
  \<^verbatim>\<open>session.Query(...).Iter()\<close>: the rows the iterator hands out before it ends, and
  the error its \<^verbatim>\<open>Close\<close> reports.
\<close>

definition Iter :: "env \<Rightarrow> string \<Rightarrow> world \<Rightarrow> (string list \<times> string option) \<times> world" where
  "Iter e user s =
     (let rows = store_select user (Subscriptions s); s' = emit (Selected user) s in
      case iter_err e of
        None \<Rightarrow> ((rows, None), s')
      | Some (n, err) \<Rightarrow> ((take n rows, Some err), s'))"

fun scan_rows :: "string list \<Rightarrow> string list \<Rightarrow> string list" where
  "scan_rows [] feedURLs = feedURLs"
| "scan_rows (feedURL # rows) feedURLs = scan_rows rows (feedURLs @ [feedURL])"

definition GetUrls :: "env \<Rightarrow> string \<Rightarrow> world \<Rightarrow> (string list option \<times> string option) result" where
  "GetUrls e user s =
     (case GetCassandraSession e s of
        (Some err, s1) \<Rightarrow> Return (None, Some ''Cannot connect to cassandra'') s1
      | (None, s1) \<Rightarrow>
          (case Iter e user s1 of
             ((rows, ierr), s2) \<Rightarrow>
               (let feedURLs = scan_rows rows [] in
                case ierr of
                  Some err \<Rightarrow> Exit (emit (Fatal err) s2)
                | None \<Rightarrow> Return (Some feedURLs, None) (session_Close s2))))"

text \<open>
  \<^verbatim>\<open>fp.ParseURL(feedURL)\<close> as Go sees it: a pointer and an error. The parsing
  library, which is not part of the repository, returns the nil pointer together with the
  error when the request, the status or the parse fails, and a feed with no error
  otherwise.
\<close>

definition ParseURL :: "env \<Rightarrow> string \<Rightarrow> world \<Rightarrow> (Feed option \<times> string option) \<times> world" where
  "ParseURL e feedURL s =
     (case parse e feedURL of
        Inl err \<Rightarrow> ((None, Some err), emit (Fetched feedURL) s)
      | Inr feed \<Rightarrow> ((Some feed, None), emit (Fetched feedURL) s))"

text \<open>
  The loop of \<^verbatim>\<open>GetFeed\<close>. The error of \<^verbatim>\<open>ParseURL\<close> is discarded and the field
  is assigned through the pointer, which panics on the nil pointer.
\<close>

fun GetFeed_loop :: "env \<Rightarrow> string list \<Rightarrow> Subscription \<Rightarrow> world \<Rightarrow> Subscription result" where
  "GetFeed_loop e [] subscription s = Return subscription s"
| "GetFeed_loop e (feedURL # rest) subscription s =
     (case ParseURL e feedURL s of
        ((None, _), s1) \<Rightarrow> Panic s1
      | ((Some feed, _), s1) \<Rightarrow>
          GetFeed_loop e rest
            (subscription\<lparr>Feeds := append_slice (Feeds subscription) (feed\<lparr>FeedLink := feedURL\<rparr>)\<rparr>) s1)"

definition GetFeed :: "env \<Rightarrow> string \<Rightarrow> ResponseWriter \<Rightarrow> world \<Rightarrow> ResponseWriter result" where
  "GetFeed e user w s =
     (case GetUrls e user s of
        Exit s1 \<Rightarrow> Exit s1
      | Panic s1 \<Rightarrow> Panic s1
      | Return (feedURLs, Some err) s1 \<Rightarrow> Return (ReturnErrorPage w err) s1
      | Return (feedURLs, None) s1 \<Rightarrow>
          (case GetFeed_loop e (range_slice feedURLs) \<lparr>Feeds = None\<rparr> s1 of
             Exit s2 \<Rightarrow> Exit s2
           | Panic s2 \<Rightarrow> Panic s2
           | Return subscription s2 \<Rightarrow> Return (Write (Encode e subscription) w) s2))"

definition AddFeed :: "env \<Rightarrow> string \<Rightarrow> string \<Rightarrow> ResponseWriter \<Rightarrow> world \<Rightarrow> ResponseWriter result" where
  "AddFeed e user feedURL w s =
     (case GetCassandraSession e s of
        (Some err, s1) \<Rightarrow> Exit (emit (Fatal err) s1)
      | (None, s1) \<Rightarrow>
          (case Exec_insert e user feedURL ''1'' s1 of
             (Some err, s2) \<Rightarrow> Exit (emit (Fatal err) s2)
           | (None, s2) \<Rightarrow> Return (WriteHeader 200 w) (session_Close s2)))"

definition DeleteFeed :: "env \<Rightarrow> string \<Rightarrow> string \<Rightarrow> ResponseWriter \<Rightarrow> world \<Rightarrow> ResponseWriter result" where
  "DeleteFeed e user feedURL w s =
     (case GetCassandraSession e s of
        (Some err, s1) \<Rightarrow> Exit (emit (Fatal err) s1)
      | (None, s1) \<Rightarrow>
          (case Exec_delete e user feedURL s1 of
             (Some err, s2) \<Rightarrow> Exit (emit (Fatal err) s2)
           | (None, s2) \<Rightarrow> Return (WriteHeader 200 w) (session_Close s2)))"

section \<open>The handlers of the opentracing/appdash variant\<close>

text \<open>
  Spans only observe and are left out. \<^verbatim>\<open>ReturnErrorPage\<close> of this variant is the
  function of the same name above, word for word.
\<close>

definition GetCassandraSession_ctx :: "env \<Rightarrow> world \<Rightarrow> string option \<times> world" where
  "GetCassandraSession_ctx e s =
     (case connect_err e of
        None \<Rightarrow> (None, emit SessionCreated s)
      | Some err \<Rightarrow> (Some err, emit SessionRefused s))"

definition GetUrls_ctx :: "env \<Rightarrow> string \<Rightarrow> world \<Rightarrow> (string list option \<times> string option) result" where
  "GetUrls_ctx e user s =
     (case GetCassandraSession_ctx e s of
        (Some err, s1) \<Rightarrow> Return (None, Some ''Cannot connect to cassandra'') s1
      | (None, s1) \<Rightarrow>
          (case Iter e user s1 of
             ((rows, ierr), s2) \<Rightarrow>
               (let feedURLs = scan_rows rows [] in
                case ierr of
                  Some err \<Rightarrow> Exit (emit (Fatal err) s2)
                | None \<Rightarrow> Return (Some feedURLs, None) (session_Close s2))))"

definition FetchFeedContents :: "env \<Rightarrow> string \<Rightarrow> world \<Rightarrow> (Feed option \<times> string option) \<times> world" where
  "FetchFeedContents e feedURL s =
     (case ParseURL e feedURL s of
        ((feed, Some err), s1) \<Rightarrow> ((None, Some err), s1)
      | ((feed, None), s1) \<Rightarrow> ((feed, None), s1))"

fun FetchFeed_loop :: "env \<Rightarrow> string list \<Rightarrow> Subscription \<Rightarrow> world \<Rightarrow> Subscription result" where
  "FetchFeed_loop e [] subscription s = Return subscription s"
| "FetchFeed_loop e (feedURL # rest) subscription s =
     (case FetchFeedContents e feedURL s of
        ((_, Some err), s1) \<Rightarrow> FetchFeed_loop e rest subscription s1
      | ((None, None), s1) \<Rightarrow> Panic s1
      | ((Some feed, None), s1) \<Rightarrow>
          FetchFeed_loop e rest
            (subscription\<lparr>Feeds := append_slice (Feeds subscription) (feed\<lparr>FeedLink := feedURL\<rparr>)\<rparr>) s1)"

definition FetchFeed :: "env \<Rightarrow> string \<Rightarrow> ResponseWriter \<Rightarrow> world \<Rightarrow> ResponseWriter result" where
  "FetchFeed e user w s =
     (case extract_err e of
        Some err \<Rightarrow> Return w s
      | None \<Rightarrow>
          (case GetUrls_ctx e user s of
             Exit s1 \<Rightarrow> Exit s1
           | Panic s1 \<Rightarrow> Panic s1
           | Return (feedURLs, Some err) s1 \<Rightarrow> Return (ReturnErrorPage w err) s1
           | Return (feedURLs, None) s1 \<Rightarrow>
               (case FetchFeed_loop e (range_slice feedURLs) \<lparr>Feeds = None\<rparr> s1 of
                  Exit s2 \<Rightarrow> Exit s2
                | Panic s2 \<Rightarrow> Panic s2
                | Return subscription s2 \<Rightarrow> Return (Write (Encode e subscription) w) s2)))"

definition Subscribe :: "env \<Rightarrow> string \<Rightarrow> string \<Rightarrow> ResponseWriter \<Rightarrow> world \<Rightarrow> ResponseWriter result" where
  "Subscribe e user feedURL w s =
     (case extract_err e of
        Some err \<Rightarrow> Return w s
      | None \<Rightarrow>
          (case GetCassandraSession_ctx e s of
             (Some err, s1) \<Rightarrow> Exit (emit (Fatal err) s1)
           | (None, s1) \<Rightarrow>
               (case Exec_insert e user feedURL ''1'' s1 of
                  (Some err, s2) \<Rightarrow> Exit (emit (Fatal err) s2)
                | (None, s2) \<Rightarrow> Return (WriteHeader 200 w) (session_Close s2))))"

definition Unsubscribe :: "env \<Rightarrow> string \<Rightarrow> string \<Rightarrow> ResponseWriter \<Rightarrow> world \<Rightarrow> ResponseWriter result" where
  "Unsubscribe e user feedURL w s =
     (case extract_err e of
        Some err \<Rightarrow> Return w s
      | None \<Rightarrow>
          (case GetCassandraSession_ctx e s of
             (Some err, s1) \<Rightarrow> Exit (emit (Fatal err) s1)
           | (None, s1) \<Rightarrow>
               (case Exec_delete e user feedURL s1 of
                  (Some err, s2) \<Rightarrow> Exit (emit (Fatal err) s2)
                | (None, s2) \<Rightarrow> Return (WriteHeader 200 w) (session_Close s2))))"

section \<open>What the specification expects of a fetch\<close>

text \<open>
  The specification's payload for the URL sequence \<open>S\<close>: one feed per URL whose fetch
  succeeds, in the order of \<open>S\<close>, each carrying the URL it was requested under.
\<close>

definition fetch_ok :: "env \<Rightarrow> string \<Rightarrow> bool" where
  "fetch_ok e u = (case parse e u of Inl err \<Rightarrow> False | Inr feed \<Rightarrow> True)"

fun spec_payload :: "env \<Rightarrow> string list \<Rightarrow> Feed list" where
  "spec_payload e [] = []"
| "spec_payload e (u # us) =
     (case parse e u of
        Inl err \<Rightarrow> spec_payload e us
      | Inr feed \<Rightarrow> feed\<lparr>FeedLink := u\<rparr> # spec_payload e us)"

definition extend_slice :: "'a list option \<Rightarrow> 'a list \<Rightarrow> 'a list option" where
  "extend_slice sl xs = (if xs = [] then sl else Some (range_slice sl @ xs))"

definition stamped_from :: "env \<Rightarrow> Feed \<Rightarrow> string \<Rightarrow> bool" where
  "stamped_from e f u = (case parse e u of Inl err \<Rightarrow> False | Inr feed \<Rightarrow> f = feed\<lparr>FeedLink := u\<rparr>)"

section \<open>Sample requests\<close>

definition feedA :: Feed where
  "feedA = \<lparr>Title = ''A'', Description = [], Link = ''http://a.example/'',
            FeedLink = ''http://a.example/atom.xml'', Items = []\<rparr>"

definition feedB :: Feed where
  "feedB = \<lparr>Title = ''B'', Description = [], Link = ''http://b.example/'',
            FeedLink = [], Items = []\<rparr>"

definition parse_both :: "string \<Rightarrow> string + Feed" where
  "parse_both u =
     (if u = ''http://a.example/rss'' then Inr feedA
      else if u = ''http://b.example/rss'' then Inr feedB
      else Inl ''no such host'')"

definition parse_a_only :: "string \<Rightarrow> string + Feed" where
  "parse_a_only u = (if u = ''http://a.example/rss'' then Inr feedA else Inl ''timeout'')"

definition parse_b_only :: "string \<Rightarrow> string + Feed" where
  "parse_b_only u = (if u = ''http://b.example/rss'' then Inr feedB else Inl ''timeout'')"

definition marshal_link :: "Feed \<Rightarrow> string" where
  "marshal_link f = ''<'' @ FeedLink f @ ''>''"

definition env_ok :: env where
  "env_ok = \<lparr>extract_err = None, connect_err = None, exec_err = None, iter_err = None,
             parse = parse_both, marshal = marshal_link\<rparr>"

definition env_no_span :: env where
  "env_no_span = env_ok\<lparr>extract_err := Some ''SpanContext not found in Extract carrier''\<rparr>"

definition env_unreachable :: env where
  "env_unreachable = env_ok\<lparr>connect_err := Some ''gocql: unable to create session''\<rparr>"

definition env_write_fails :: env where
  "env_write_fails = env_ok\<lparr>exec_err := Some ''gocql: no response received from cassandra''\<rparr>"

definition env_read_fails :: env where
  "env_read_fails = env_ok\<lparr>iter_err := Some (1, ''gocql: no response received from cassandra'')\<rparr>"

definition env_b_down :: env where
  "env_b_down = env_ok\<lparr>parse := parse_a_only\<rparr>"

definition env_a_down :: env where
  "env_a_down = env_ok\<lparr>parse := parse_b_only\<rparr>"

definition world_alice :: world where
  "world_alice =
     \<lparr>Subscriptions = [((''alice'', ''http://a.example/rss''), ''1''),
                       ((''alice'', ''http://b.example/rss''), ''1'')],
      trace = []\<rparr>"

definition world_bob :: world where
  "world_bob = \<lparr>Subscriptions = [((''bob'', ''http://b.example/rss''), ''1'')], trace = []\<rparr>"

section \<open>Auxiliary facts\<close>

lemma scan_rows_append: "scan_rows rows acc = acc @ rows"
  by (induction rows arbitrary: acc) simp_all

lemma GetUrls_ok:
  assumes "connect_err e = None" and "iter_err e = None"
  shows "GetUrls e user s =
           Return (Some (store_select user (Subscriptions s)), None)
             (s\<lparr>trace := trace s @ [SessionCreated, Selected user, SessionClosed]\<rparr>)"
  using assms
  by (simp add: GetUrls_def GetCassandraSession_def Iter_def emit_def session_Close_def
      scan_rows_append Let_def)

lemma GetUrls_ctx_ok:
  assumes "connect_err e = None" and "iter_err e = None"
  shows "GetUrls_ctx e user s =
           Return (Some (store_select user (Subscriptions s)), None)
             (s\<lparr>trace := trace s @ [SessionCreated, Selected user, SessionClosed]\<rparr>)"
  using assms
  by (simp add: GetUrls_ctx_def GetCassandraSession_ctx_def Iter_def emit_def session_Close_def
      scan_rows_append Let_def)

text \<open>
  The loop of \<open>FetchFeed\<close> never panics and builds the payload the specification
  expects, fetching every URL once and in order.
\<close>

lemma FetchFeed_loop_eq:
  "FetchFeed_loop e urls sub s =
     Return (sub\<lparr>Feeds := extend_slice (Feeds sub) (spec_payload e urls)\<rparr>)
       (s\<lparr>trace := trace s @ map Fetched urls\<rparr>)"
proof (induction urls arbitrary: sub s)
  case Nil
  show ?case by (simp add: extend_slice_def)
next
  case (Cons u us)
  show ?case
  proof (cases "parse e u")
    case (Inl err)
    then show ?thesis
      by (simp add: Cons.IH FetchFeedContents_def ParseURL_def emit_def)
  next
    case (Inr feed)
    then show ?thesis
      by (simp add: Cons.IH FetchFeedContents_def ParseURL_def emit_def
          extend_slice_def append_slice_def range_slice_def split: option.splits)
  qed
qed

text \<open>
  The loop of \<open>GetFeed\<close> builds the same payload when every fetch succeeds, and
  panics at the first URL whose fetch fails.
\<close>

lemma GetFeed_loop_all_ok:
  "\<forall>u \<in> set urls. fetch_ok e u \<Longrightarrow>
   GetFeed_loop e urls sub s =
     Return (sub\<lparr>Feeds := extend_slice (Feeds sub) (spec_payload e urls)\<rparr>)
       (s\<lparr>trace := trace s @ map Fetched urls\<rparr>)"
proof (induction urls arbitrary: sub s)
  case Nil
  show ?case by (simp add: extend_slice_def)
next
  case (Cons u us)
  from Cons.prems obtain feed where p: "parse e u = Inr feed"
    by (auto simp: fetch_ok_def split: sum.splits)
  from Cons.prems have rest: "\<forall>u \<in> set us. fetch_ok e u" by simp
  show ?case
    by (simp add: Cons.IH [OF rest] p ParseURL_def emit_def
        extend_slice_def append_slice_def range_slice_def split: option.splits)
qed

lemma GetFeed_loop_some_fail:
  "\<exists>u \<in> set urls. \<not> fetch_ok e u \<Longrightarrow> \<exists>s'. GetFeed_loop e urls sub s = Panic s'"
proof (induction urls arbitrary: sub s)
  case Nil
  then show ?case by simp
next
  case (Cons u us)
  show ?case
  proof (cases "parse e u")
    case (Inl err)
    then show ?thesis by (simp add: ParseURL_def)
  next
    case (Inr feed)
    with Cons.prems have "\<exists>u \<in> set us. \<not> fetch_ok e u"
      by (auto simp: fetch_ok_def)
    from Cons.IH [OF this] show ?thesis
      by (simp add: Inr ParseURL_def)
  qed
qed

lemma map_FeedLink_spec_payload:
  "map FeedLink (spec_payload e urls) = filter (fetch_ok e) urls"
  by (induction urls) (simp_all add: fetch_ok_def split: sum.splits)

lemma spec_payload_stamped:
  "list_all2 (stamped_from e) (spec_payload e urls) (filter (fetch_ok e) urls)"
  by (induction urls) (simp_all add: fetch_ok_def stamped_from_def split: sum.splits)

lemma FetchFeed_ok:
  assumes "extract_err e = None" and "connect_err e = None" and "iter_err e = None"
  shows "FetchFeed e user w s =
           Return (Write (Encode e \<lparr>Feeds = extend_slice None
                     (spec_payload e (store_select user (Subscriptions s)))\<rparr>) w)
             (s\<lparr>trace := trace s @ [SessionCreated, Selected user, SessionClosed]
                  @ map Fetched (store_select user (Subscriptions s))\<rparr>)"
  using assms(1)
  by (simp add: FetchFeed_def GetUrls_ctx_ok [OF assms(2,3)] FetchFeed_loop_eq range_slice_def)

lemma update_one_row:
  "distinct (map fst t) \<Longrightarrow> length (filter (\<lambda>r. fst r = k) (AList.update k v t)) = 1"
proof (induction t)
  case Nil
  show ?case by simp
next
  case (Cons r t)
  show ?case
  proof (cases "fst r = k")
    case True
    with Cons.prems have "k \<notin> fst ` set t" by auto
    then have "filter (\<lambda>r. fst r = k) t = []"
      by (auto simp: filter_empty_conv)
    with True show ?thesis by (cases r) simp
  next
    case False
    with Cons show ?thesis by (cases r) simp
  qed
qed

lemma AddFeed_table:
  "Subscriptions (world_of (AddFeed e user url w s)) =
     (if connect_err e = None \<and> exec_err e = None
      then store_insert user url ''1'' (Subscriptions s) else Subscriptions s)"
  by (simp add: AddFeed_def GetCassandraSession_def Exec_insert_def session_Close_def
      world_of_def emit_def split: option.splits)

lemma Subscribe_table:
  "Subscriptions (world_of (Subscribe e user url w s)) =
     (if extract_err e = None \<and> connect_err e = None \<and> exec_err e = None
      then store_insert user url ''1'' (Subscriptions s) else Subscriptions s)"
  by (simp add: Subscribe_def GetCassandraSession_ctx_def Exec_insert_def session_Close_def
      world_of_def emit_def split: option.splits)

lemma store_insert_twice:
  "store_insert user url v (store_insert user url v t) = store_insert user url v t"
  by (simp add: store_insert_def)

lemma select_alice:
  "store_select ''alice'' (Subscriptions world_alice)
     = [''http://a.example/rss'', ''http://b.example/rss'']"
  by (simp add: store_select_def world_alice_def)

section \<open>Properties\<close>

text \<open>
  C9. In the opentracing/appdash variant, a request whose headers carry no extractable
  span context makes each of the three handlers return at once: the table and the trace
  of store and network events are as before, no error is written, and the client
  receives status 200 with an empty body.
\<close>

theorem no_span_context_returns_at_once:
  assumes "extract_err e = Some err"
  shows "FetchFeed e user new_writer s = Return new_writer s
       \<and> Subscribe e user feedURL new_writer s = Return new_writer s
       \<and> Unsubscribe e user feedURL new_writer s = Return new_writer s
       \<and> response (FetchFeed e user new_writer s) = Some (200, [])
       \<and> response (Subscribe e user feedURL new_writer s) = Some (200, [])
       \<and> response (Unsubscribe e user feedURL new_writer s) = Some (200, [])"
  using assms
  by (simp add: FetchFeed_def Subscribe_def Unsubscribe_def response_def new_writer_def)

theorem no_span_context_returns_at_once_witness:
  "extract_err env_no_span = Some ''SpanContext not found in Extract carrier''
   \<and> FetchFeed env_no_span ''alice'' new_writer world_alice = Return new_writer world_alice
   \<and> Subscribe env_no_span ''alice'' ''http://c.example/rss'' new_writer world_alice
        = Return new_writer world_alice
   \<and> Unsubscribe env_no_span ''alice'' ''http://a.example/rss'' new_writer world_alice
        = Return new_writer world_alice
   \<and> response (FetchFeed env_no_span ''alice'' new_writer world_alice) = Some (200, [])"
proof -
  have h: "extract_err env_no_span = Some ''SpanContext not found in Extract carrier''"
    by (simp add: env_no_span_def)
  from no_span_context_returns_at_once [OF h] h show ?thesis
    by blast
qed

text \<open>
  C7. Every feed in the payload of a fetch is the parsed document of one of the user's
  URLs with its \<open>FeedLink\<close> field set to that URL, whatever link the document declared:
  the payload of \<open>FetchFeed\<close>, and of \<open>GetFeed\<close> whenever it returns, is the
  specification's payload for the URLs the store returned, whose \<open>FeedLink\<close> fields
  are, in order, the URLs whose fetch succeeded.
\<close>

theorem feed_link_is_requested_url:
  assumes "connect_err e = None" and "iter_err e = None"
  shows "(extract_err e = None \<longrightarrow>
            (\<exists>s'. FetchFeed e user w s =
               Return (Write (Encode e \<lparr>Feeds = extend_slice None
                 (spec_payload e (store_select user (Subscriptions s)))\<rparr>) w) s'))
       \<and> ((\<forall>u \<in> set (store_select user (Subscriptions s)). fetch_ok e u) \<longrightarrow>
            (\<exists>s'. GetFeed e user w s =
               Return (Write (Encode e \<lparr>Feeds = extend_slice None
                 (spec_payload e (store_select user (Subscriptions s)))\<rparr>) w) s'))
       \<and> (\<forall>w' s'. GetFeed e user w s = Return w' s' \<longrightarrow>
             w' = Write (Encode e \<lparr>Feeds = extend_slice None
                 (spec_payload e (store_select user (Subscriptions s)))\<rparr>) w)
       \<and> list_all2 (stamped_from e) (spec_payload e (store_select user (Subscriptions s)))
            (filter (fetch_ok e) (store_select user (Subscriptions s)))
       \<and> map FeedLink (spec_payload e (store_select user (Subscriptions s)))
            = filter (fetch_ok e) (store_select user (Subscriptions s))"
proof -
  let ?S = "store_select user (Subscriptions s)"
  let ?w = "Write (Encode e \<lparr>Feeds = extend_slice None (spec_payload e ?S)\<rparr>) w"
  have fetch: "extract_err e = None \<Longrightarrow> \<exists>s'. FetchFeed e user w s = Return ?w s'"
    by (simp add: FetchFeed_ok [OF _ assms])
  have get_ok: "\<exists>s'. GetFeed e user w s = Return ?w s'" if "\<forall>u \<in> set ?S. fetch_ok e u"
    by (simp add: GetFeed_def GetUrls_ok [OF assms] GetFeed_loop_all_ok [OF that] range_slice_def)
  have get_ret: "w' = ?w" if r: "GetFeed e user w s = Return w' s'" for w' s'
  proof (cases "\<forall>u \<in> set ?S. fetch_ok e u")
    case True
    from get_ok [OF True] r show ?thesis by auto
  next
    case False
    then have "\<exists>u \<in> set ?S. \<not> fetch_ok e u" by simp
    from GetFeed_loop_some_fail [OF this]
    obtain s2 where "GetFeed_loop e ?S \<lparr>Feeds = None\<rparr>
        (s\<lparr>trace := trace s @ [SessionCreated, Selected user, SessionClosed]\<rparr>) = Panic s2"
      by blast
    with r show ?thesis
      by (simp add: GetFeed_def GetUrls_ok [OF assms] range_slice_def)
  qed
  from fetch get_ok get_ret show ?thesis
    by (simp add: spec_payload_stamped map_FeedLink_spec_payload)
qed

theorem feed_link_is_requested_url_witness:
  "connect_err env_ok = None \<and> iter_err env_ok = None \<and> extract_err env_ok = None
   \<and> store_select ''alice'' (Subscriptions world_alice)
        = [''http://a.example/rss'', ''http://b.example/rss'']
   \<and> fetch_ok env_ok ''http://a.example/rss'' \<and> fetch_ok env_ok ''http://b.example/rss''
   \<and> FeedLink feedA = ''http://a.example/atom.xml''
   \<and> (\<exists>s'. FetchFeed env_ok ''alice'' new_writer world_alice =
              Return (Write (Encode env_ok
                \<lparr>Feeds = Some [feedA\<lparr>FeedLink := ''http://a.example/rss''\<rparr>,
                               feedB\<lparr>FeedLink := ''http://b.example/rss''\<rparr>]\<rparr>) new_writer) s')
   \<and> (\<exists>s'. GetFeed env_ok ''alice'' new_writer world_alice =
              Return (Write (Encode env_ok
                \<lparr>Feeds = Some [feedA\<lparr>FeedLink := ''http://a.example/rss''\<rparr>,
                               feedB\<lparr>FeedLink := ''http://b.example/rss''\<rparr>]\<rparr>) new_writer) s')"
proof -
  have h1: "connect_err env_ok = None" and h2: "iter_err env_ok = None"
    and h3: "extract_err env_ok = None"
    by (simp_all add: env_ok_def)
  have ok: "\<forall>u \<in> set (store_select ''alice'' (Subscriptions world_alice)). fetch_ok env_ok u"
    by (simp add: select_alice fetch_ok_def env_ok_def parse_both_def)
  have payload:
    "extend_slice None (spec_payload env_ok (store_select ''alice'' (Subscriptions world_alice)))
      = Some [feedA\<lparr>FeedLink := ''http://a.example/rss''\<rparr>,
              feedB\<lparr>FeedLink := ''http://b.example/rss''\<rparr>]"
    by (simp add: select_alice extend_slice_def range_slice_def env_ok_def parse_both_def)
  have link: "FeedLink feedA = ''http://a.example/atom.xml''"
    by (simp add: feedA_def)
  have ok_a: "fetch_ok env_ok ''http://a.example/rss''" and ok_b: "fetch_ok env_ok ''http://b.example/rss''"
    using ok by (simp_all add: select_alice)
  from feed_link_is_requested_url [OF h1 h2, of "''alice''" new_writer world_alice]
    h1 h2 h3 ok ok_a ok_b link select_alice
  show ?thesis
    unfolding payload by blast
qed

text \<open>
  C5. Once a subscribe of a (user, URL) pair has been written, a second subscribe of the
  same pair, whatever its outcome, leaves the table as the first one left it, and the
  table holds exactly one row for the pair.
\<close>

theorem subscribe_twice_is_once:
  assumes "connect_err e1 = None" and "exec_err e1 = None" and "extract_err e1 = None"
    and "distinct (map fst (Subscriptions s))"
  shows "Subscriptions (world_of (AddFeed e2 user url w2 (world_of (AddFeed e1 user url w1 s))))
           = Subscriptions (world_of (AddFeed e1 user url w1 s))
       \<and> Subscriptions (world_of (Subscribe e2 user url w2 (world_of (Subscribe e1 user url w1 s))))
           = Subscriptions (world_of (Subscribe e1 user url w1 s))
       \<and> length (filter (\<lambda>r. fst r = (user, url))
           (Subscriptions (world_of (AddFeed e2 user url w2 (world_of (AddFeed e1 user url w1 s)))))) = 1
       \<and> length (filter (\<lambda>r. fst r = (user, url))
           (Subscriptions (world_of (Subscribe e2 user url w2 (world_of (Subscribe e1 user url w1 s)))))) = 1"
  using assms
  by (simp add: AddFeed_table Subscribe_table store_insert_twice)
     (simp add: store_insert_def update_one_row)

theorem subscribe_twice_is_once_witness:
  "connect_err env_ok = None \<and> exec_err env_ok = None \<and> extract_err env_ok = None
   \<and> distinct (map fst (Subscriptions world_bob))
   \<and> Subscriptions (world_of (AddFeed env_ok ''bob'' ''http://a.example/rss'' new_writer
        (world_of (AddFeed env_ok ''bob'' ''http://a.example/rss'' new_writer world_bob))))
      = [((''bob'', ''http://b.example/rss''), ''1''), ((''bob'', ''http://a.example/rss''), ''1'')]
   \<and> length (filter (\<lambda>r. fst r = (''bob'', ''http://a.example/rss''))
        (Subscriptions (world_of (Subscribe env_ok ''bob'' ''http://a.example/rss'' new_writer
          (world_of (Subscribe env_ok ''bob'' ''http://a.example/rss'' new_writer world_bob)))))) = 1"
proof -
  have h1: "connect_err env_ok = None" and h2: "exec_err env_ok = None"
    and h3: "extract_err env_ok = None"
    by (simp_all add: env_ok_def)
  have h4: "distinct (map fst (Subscriptions world_bob))"
    by (simp add: world_bob_def)
  have once: "Subscriptions (world_of (AddFeed env_ok ''bob'' ''http://a.example/rss'' new_writer world_bob))
      = [((''bob'', ''http://b.example/rss''), ''1''), ((''bob'', ''http://a.example/rss''), ''1'')]"
    by (simp add: AddFeed_table h1 h2 world_bob_def store_insert_def)
  note twice = subscribe_twice_is_once [OF h1 h2 h3 h4, of env_ok "''bob''"
      "''http://a.example/rss''" new_writer new_writer]
  from twice have a: "Subscriptions (world_of (AddFeed env_ok ''bob'' ''http://a.example/rss'' new_writer
        (world_of (AddFeed env_ok ''bob'' ''http://a.example/rss'' new_writer world_bob))))
      = Subscriptions (world_of (AddFeed env_ok ''bob'' ''http://a.example/rss'' new_writer world_bob))"
    by blast
  from twice have b: "length (filter (\<lambda>r. fst r = (''bob'', ''http://a.example/rss''))
        (Subscriptions (world_of (Subscribe env_ok ''bob'' ''http://a.example/rss'' new_writer
          (world_of (Subscribe env_ok ''bob'' ''http://a.example/rss'' new_writer world_bob)))))) = 1"
    by blast
  from h1 h2 h3 h4 a [unfolded once] b show ?thesis
    by blast
qed

text \<open>
  C6. When the store is reachable and carries out the delete, an unsubscribe of a
  (user, URL) pair that has no row returns without an error: the handler sets status 200
  and writes no body, the session is closed, no fatal error is logged, and the table is
  as it was.
\<close>

theorem unsubscribe_absent_succeeds:
  assumes "connect_err e = None" and "exec_err e = None"
    and "(user, url) \<notin> fst ` set (Subscriptions s)"
  shows "DeleteFeed e user url new_writer s =
           Return \<lparr>code = Some 200, body = []\<rparr>
             (s\<lparr>trace := trace s @ [SessionCreated, Deleted user url, SessionClosed]\<rparr>)
       \<and> (extract_err e = None \<longrightarrow>
            Unsubscribe e user url new_writer s =
              Return \<lparr>code = Some 200, body = []\<rparr>
                (s\<lparr>trace := trace s @ [SessionCreated, Deleted user url, SessionClosed]\<rparr>))
       \<and> response (DeleteFeed e user url new_writer s) = Some (200, [])
       \<and> response (Unsubscribe e user url new_writer s) = Some (200, [])
       \<and> Subscriptions (world_of (DeleteFeed e user url new_writer s)) = Subscriptions s
       \<and> Subscriptions (world_of (Unsubscribe e user url new_writer s)) = Subscriptions s"
  using assms
  by (simp add: DeleteFeed_def Unsubscribe_def GetCassandraSession_def GetCassandraSession_ctx_def
      Exec_delete_def session_Close_def response_def world_of_def emit_def new_writer_def
      WriteHeader_def store_delete_def split: option.splits)

theorem unsubscribe_absent_succeeds_witness:
  "connect_err env_ok = None \<and> exec_err env_ok = None
   \<and> (''alice'', ''http://c.example/rss'') \<notin> fst ` set (Subscriptions world_alice)
   \<and> DeleteFeed env_ok ''alice'' ''http://c.example/rss'' new_writer world_alice =
        Return \<lparr>code = Some 200, body = []\<rparr>
          (world_alice\<lparr>trace := trace world_alice @
             [SessionCreated, Deleted ''alice'' ''http://c.example/rss'', SessionClosed]\<rparr>)
   \<and> response (DeleteFeed env_ok ''alice'' ''http://c.example/rss'' new_writer world_alice)
        = Some (200, [])
   \<and> response (Unsubscribe env_ok ''alice'' ''http://c.example/rss'' new_writer world_alice)
        = Some (200, [])"
proof -
  have h1: "connect_err env_ok = None" and h2: "exec_err env_ok = None"
    by (simp_all add: env_ok_def)
  have h3: "(''alice'', ''http://c.example/rss'') \<notin> fst ` set (Subscriptions world_alice)"
    by (simp add: world_alice_def)
  from unsubscribe_absent_succeeds [OF h1 h2 h3] h1 h2 h3 show ?thesis
    by blast
qed

section \<open>Where the handlers leave the specification\<close>

text \<open>
  C1. A feed that cannot be fetched is to be skipped and the rest returned with status
  200. For a user with two subscriptions of which the second cannot be fetched,
  \<open>FetchFeed\<close> does so; \<open>GetFeed\<close> assigns through the nil pointer, panics after the
  second fetch, and the client receives no response.
\<close>

theorem GetFeed_one_failed_feed_aborts:
  "GetFeed env_b_down ''alice'' new_writer world_alice =
     Panic (world_alice\<lparr>trace :=
       [SessionCreated, Selected ''alice'', SessionClosed,
        Fetched ''http://a.example/rss'', Fetched ''http://b.example/rss'']\<rparr>)
   \<and> response (GetFeed env_b_down ''alice'' new_writer world_alice) = None
   \<and> response (FetchFeed env_b_down ''alice'' new_writer world_alice) =
       Some (200, Encode env_b_down \<lparr>Feeds = Some [feedA\<lparr>FeedLink := ''http://a.example/rss''\<rparr>]\<rparr>)"
  by (simp add: GetFeed_def FetchFeed_def GetUrls_def GetUrls_ctx_def GetCassandraSession_def
      GetCassandraSession_ctx_def Iter_def store_select_def ParseURL_def FetchFeedContents_def
      env_b_down_def env_ok_def world_alice_def parse_a_only_def emit_def session_Close_def
      range_slice_def append_slice_def response_def Write_def WriteHeader_def new_writer_def
      Encode_def Let_def)

text \<open>
  C2. The payload of a fetch is to hold one feed for each URL of the store's sequence
  whose fetch succeeds, in order. For the sequence of two URLs of which the first cannot
  be fetched and the second can, \<open>GetFeed\<close> panics at the first and writes no payload,
  so the feed of the second URL is missing.
\<close>

theorem GetFeed_payload_missing_when_a_fetch_fails:
  "store_select ''alice'' (Subscriptions world_alice)
     = [''http://a.example/rss'', ''http://b.example/rss'']
   \<and> parse env_a_down ''http://a.example/rss'' = Inl ''timeout''
   \<and> parse env_a_down ''http://b.example/rss'' = Inr feedB
   \<and> GetFeed env_a_down ''alice'' new_writer world_alice =
     Panic (world_alice\<lparr>trace :=
       [SessionCreated, Selected ''alice'', SessionClosed, Fetched ''http://a.example/rss'']\<rparr>)"
  by (simp add: GetFeed_def GetUrls_def GetCassandraSession_def Iter_def store_select_def
      ParseURL_def env_a_down_def env_ok_def world_alice_def parse_b_only_def emit_def
      session_Close_def range_slice_def append_slice_def Let_def)

text \<open>
  C10. A user with no subscription, or whose feeds all fail, is to receive status 200 with
  \<open>Feeds\<close> encoded as \<open>null\<close>. \<open>FetchFeed\<close> answers so in both cases and
  \<open>GetFeed\<close> for the user with no subscription; for a user whose only feed cannot be
  fetched \<open>GetFeed\<close> panics and the client receives no response.
\<close>

theorem GetFeed_all_feeds_fail_no_response:
  "response (GetFeed env_b_down ''bob'' new_writer world_bob) = None
   \<and> response (FetchFeed env_b_down ''bob'' new_writer world_bob) =
       Some (200, ''{'' @ quote @ ''Feeds'' @ quote @ '':null}'' @ [CHR 0x0A])
   \<and> response (GetFeed env_ok ''carol'' new_writer world_bob) =
       Some (200, ''{'' @ quote @ ''Feeds'' @ quote @ '':null}'' @ [CHR 0x0A])
   \<and> response (FetchFeed env_ok ''carol'' new_writer world_bob) =
       Some (200, ''{'' @ quote @ ''Feeds'' @ quote @ '':null}'' @ [CHR 0x0A])"
  by (simp add: GetFeed_def FetchFeed_def GetUrls_def GetUrls_ctx_def GetCassandraSession_def
      GetCassandraSession_ctx_def Iter_def store_select_def ParseURL_def FetchFeedContents_def
      env_b_down_def env_ok_def world_bob_def parse_a_only_def emit_def session_Close_def
      range_slice_def append_slice_def response_def Write_def WriteHeader_def new_writer_def
      Encode_def Let_def)

text \<open>
  C3. A failed operation on an open session is to end the request with status 500 and
  the error's message. When the insert, the delete or the subscription read fails, every
  handler reaches \<^verbatim>\<open>log.Fatal\<close> first: the process exits and the client receives no
  response.
\<close>

theorem store_operation_failure_exits:
  "AddFeed env_write_fails ''alice'' ''http://c.example/rss'' new_writer world_alice =
     Exit (world_alice\<lparr>trace :=
       [SessionCreated, Fatal ''gocql: no response received from cassandra'']\<rparr>)
   \<and> response (AddFeed env_write_fails ''alice'' ''http://c.example/rss'' new_writer world_alice) = None
   \<and> response (DeleteFeed env_write_fails ''alice'' ''http://a.example/rss'' new_writer world_alice) = None
   \<and> response (Subscribe env_write_fails ''alice'' ''http://c.example/rss'' new_writer world_alice) = None
   \<and> response (Unsubscribe env_write_fails ''alice'' ''http://a.example/rss'' new_writer world_alice) = None
   \<and> response (GetFeed env_read_fails ''alice'' new_writer world_alice) = None
   \<and> response (FetchFeed env_read_fails ''alice'' new_writer world_alice) = None"
  by (simp add: AddFeed_def DeleteFeed_def Subscribe_def Unsubscribe_def GetFeed_def FetchFeed_def
      GetUrls_def GetUrls_ctx_def GetCassandraSession_def GetCassandraSession_ctx_def Iter_def
      Exec_insert_def Exec_delete_def env_write_fails_def env_read_fails_def env_ok_def
      world_alice_def emit_def response_def Let_def)

text \<open>
  C4. With the store unreachable, each of the three operations is to answer 500 and
  write nothing. The fetch handlers answer 500; the subscribe and unsubscribe handlers
  reach \<^verbatim>\<open>log.Fatal\<close> first: the process exits and the client receives no response.
  No handler changes the table.
\<close>

theorem unreachable_store_subscribe_exits:
  "AddFeed env_unreachable ''alice'' ''http://c.example/rss'' new_writer world_alice =
     Exit (world_alice\<lparr>trace := [SessionRefused, Fatal ''gocql: unable to create session'']\<rparr>)
   \<and> response (AddFeed env_unreachable ''alice'' ''http://c.example/rss'' new_writer world_alice) = None
   \<and> response (DeleteFeed env_unreachable ''alice'' ''http://a.example/rss'' new_writer world_alice) = None
   \<and> response (Subscribe env_unreachable ''alice'' ''http://c.example/rss'' new_writer world_alice) = None
   \<and> response (Unsubscribe env_unreachable ''alice'' ''http://a.example/rss'' new_writer world_alice) = None
   \<and> response (GetFeed env_unreachable ''alice'' new_writer world_alice)
        = Some (500, ''Cannot connect to cassandra'')
   \<and> response (FetchFeed env_unreachable ''alice'' new_writer world_alice)
        = Some (500, ''Cannot connect to cassandra'')"
  by (simp add: AddFeed_def DeleteFeed_def Subscribe_def Unsubscribe_def GetFeed_def FetchFeed_def
      GetUrls_def GetUrls_ctx_def GetCassandraSession_def GetCassandraSession_ctx_def
      ReturnErrorPage_def Write_def WriteHeader_def new_writer_def env_unreachable_def
      env_ok_def world_alice_def emit_def response_def Let_def)

text \<open>
  C8. \<open>GetUrls\<close> is to close the session it opened on every way out. When the row
  iterator reports an error, both variants reach \<^verbatim>\<open>log.Fatal\<close>: the process exits
  with the session created and never closed, and the call does not return.
\<close>

theorem GetUrls_iteration_failure_leaves_session_open:
  "GetUrls env_read_fails ''alice'' world_alice =
     Exit (world_alice\<lparr>trace :=
       [SessionCreated, Selected ''alice'', Fatal ''gocql: no response received from cassandra'']\<rparr>)
   \<and> GetUrls_ctx env_read_fails ''alice'' world_alice =
     Exit (world_alice\<lparr>trace :=
       [SessionCreated, Selected ''alice'', Fatal ''gocql: no response received from cassandra'']\<rparr>)
   \<and> SessionClosed \<notin> set (trace (world_of (GetUrls env_read_fails ''alice'' world_alice)))
   \<and> SessionClosed \<notin> set (trace (world_of (GetUrls_ctx env_read_fails ''alice'' world_alice)))"
  by (simp add: GetUrls_def GetUrls_ctx_def GetCassandraSession_def GetCassandraSession_ctx_def
      Iter_def env_read_fails_def env_ok_def world_alice_def emit_def world_of_def Let_def)

end
